theory Spec2Isabelle
  imports Main "HOL-Library.Word"
begin

section \<open>JavaScript strings\<close>

text \<open>
  A JavaScript string is a sequence of UTF-16 code units; \<open>length\<close>, \<open>substring\<close> and the
  regular expressions used by ai2cli work on code units. The model writes a string as a
  \<^typ>\<open>string\<close>: one \<^typ>\<open>char\<close> stands for one code unit (the code units below 256).
\<close>

definition digit_char :: "nat \<Rightarrow> char" where
  "digit_char d = ''0123456789'' ! d"

text \<open>Number-to-string conversion of a non-negative integer, as a template literal does it.\<close>

function decimal :: "nat \<Rightarrow> string" where
  "decimal n = (if n < 10 then [digit_char n] else decimal (n div 10) @ [digit_char (n mod 10)])"
  by pat_completeness auto
termination
  by (relation "measure id") auto

declare decimal.simps [simp del]

text \<open>Reading a decimal numeral back: the number a run of digits states.\<close>

definition digit_value :: "char \<Rightarrow> nat" where
  "digit_value c = (case map_of (zip ''0123456789'' [0 ..< 10]) c of Some d \<Rightarrow> d | None \<Rightarrow> 0)"

definition is_digit :: "char \<Rightarrow> bool" where
  "is_digit c = (c \<in> set ''0123456789'')"

definition read_decimal :: "string \<Rightarrow> nat" where
  "read_decimal ds = foldl (\<lambda>a c. 10 * a + digit_value c) 0 ds"

text \<open>
  \<open>String.prototype.trim\<close>: white space and line terminators are removed from both ends
  (among the code units below 256: TAB, LF, VT, FF, CR, SPACE and NBSP).
\<close>

definition is_js_whitespace :: "char \<Rightarrow> bool" where
  "is_js_whitespace c =
     (c \<in> set [CHR 0x09, CHR 0x0A, CHR 0x0B, CHR 0x0C, CHR 0x0D, CHR '' '', CHR 0xA0])"

definition trim :: "string \<Rightarrow> string" where
  "trim s = rev (dropWhile is_js_whitespace (rev (dropWhile is_js_whitespace s)))"

text \<open>\<open>s.replace(/c/g, r)\<close> for a pattern that matches the single character \<open>c\<close>.\<close>

definition replace_all :: "char \<Rightarrow> string \<Rightarrow> string \<Rightarrow> string" where
  "replace_all c r s = concat (map (\<lambda>x. if x = c then r else [x]) s)"

section \<open>Execution engine: output truncation (executeCommand.js)\<close>

definition MAX_OUTPUT_LENGTH :: nat where
  "MAX_OUTPUT_LENGTH = 1000"

text \<open>The template literal appended to an oversized output; \<open>n\<close> is
  \<open>executionOutput.length - MAX_OUTPUT_LENGTH\<close>.\<close>

definition truncation_marker :: "nat \<Rightarrow> string" where
  "truncation_marker n =
     CHR 0x0A # ''[Output truncated - '' @ decimal n @ '' more characters]''"

definition truncate_output :: "string \<Rightarrow> string" where
  "truncate_output executionOutput =
     (if length executionOutput > MAX_OUTPUT_LENGTH
      then take MAX_OUTPUT_LENGTH executionOutput
             @ truncation_marker (length executionOutput - MAX_OUTPUT_LENGTH)
      else executionOutput)"

text \<open>The number of omitted characters a marker states: the digits after its fixed opening.\<close>

definition stated_omitted :: "string \<Rightarrow> nat" where
  "stated_omitted m =
     read_decimal (takeWhile is_digit (drop (length (CHR 0x0A # ''[Output truncated - '')) m))"


section \<open>Script names (userRequest.js, util.js)\<close>

text \<open>\<open>toLowerCase\<close> on the letters A to Z; every other code unit below 256 that it changes
  stays outside \<open>[a-z0-9]\<close> and is replaced by the next step anyway.\<close>

definition to_lower :: "char \<Rightarrow> char" where
  "to_lower c =
     (case map_of (zip ''ABCDEFGHIJKLMNOPQRSTUVWXYZ'' ''abcdefghijklmnopqrstuvwxyz'') c of
        Some l \<Rightarrow> l
      | None \<Rightarrow> c)"

definition is_lower_alnum :: "char \<Rightarrow> bool" where
  "is_lower_alnum c = (c \<in> set ''abcdefghijklmnopqrstuvwxyz0123456789'')"

text \<open>\<open>s.replace(/[^a-z0-9]+/g, "-")\<close>: every maximal run of characters outside
  \<open>[a-z0-9]\<close> becomes one hyphen. The flag says whether the previous character was in a run.\<close>

fun replace_runs :: "bool \<Rightarrow> string \<Rightarrow> string" where
  "replace_runs in_run [] = []"
| "replace_runs in_run (c # cs) =
     (if \<not> is_lower_alnum c
      then (if in_run then replace_runs True cs else CHR ''-'' # replace_runs True cs)
      else c # replace_runs False cs)"

text \<open>\<open>s.replace(/^-|-$/g, "")\<close>: one hyphen at the start and one at the end are removed.\<close>

definition strip_hyphens :: "string \<Rightarrow> string" where
  "strip_hyphens s =
     (let s1 = (case s of [] \<Rightarrow> [] | c # cs \<Rightarrow> if c = CHR ''-'' then cs else s)
      in if s1 \<noteq> [] \<and> last s1 = CHR ''-'' then butlast s1 else s1)"

definition kebab_case :: "string \<Rightarrow> string" where
  "kebab_case scriptName = strip_hyphens (replace_runs False (map to_lower scriptName))"

definition hex_digit :: "nat \<Rightarrow> char" where
  "hex_digit d = ''0123456789abcdef'' ! d"

definition hex_byte :: "8 word \<Rightarrow> string" where
  "hex_byte b = [hex_digit (unat b div 16), hex_digit (unat b mod 16)]"

text \<open>\<open>crypto.randomBytes(4).toString("hex")\<close>; the four random bytes are an input.\<close>

definition generateRandomHash :: "8 word \<times> 8 word \<times> 8 word \<times> 8 word \<Rightarrow> string" where
  "generateRandomHash bytes =
     (case bytes of (b0, b1, b2, b3) \<Rightarrow> hex_byte b0 @ hex_byte b1 @ hex_byte b2 @ hex_byte b3)"

section \<open>Clipboard (util.js)\<close>

text \<open>The text \<open>copyToClipboard\<close> interpolates into the shell command it runs: trimmed, and on
  every platform but \<open>win32\<close> escaped for a double-quoted shell word, in the order of the
  source.\<close>

definition escape_for_shell :: "string \<Rightarrow> string" where
  "escape_for_shell s =
     replace_all (CHR 0x09) '' ''
       (replace_all (CHR 0x0A) '' ''
         (replace_all (CHR 0x60) [CHR 0x5C, CHR 0x60]
           (replace_all (CHR ''$'') [CHR 0x5C, CHR ''$'']
             (replace_all (CHR 0x22) [CHR 0x5C, CHR 0x22]
               (replace_all (CHR 0x5C) [CHR 0x5C, CHR 0x5C] s)))))"

definition clipboard_text :: "string \<Rightarrow> string \<Rightarrow> string" where
  "clipboard_text platform s =
     (let t = trim s
      in if platform = ''darwin'' \<or> platform \<noteq> ''win32'' then escape_for_shell t else t)"

text \<open>The shell command handed to \<open>execAsync\<close> (on Linux the first of the two tools tried).\<close>

definition clipboard_command :: "string \<Rightarrow> string \<Rightarrow> string" where
  "clipboard_command platform s =
     (let t = clipboard_text platform s
      in if platform = ''darwin''
         then ''printf '' @ [CHR 0x22] @ ''%s'' @ [CHR 0x22] @ '' '' @ [CHR 0x22] @ t @ [CHR 0x22]
                @ '' | pbcopy''
         else if platform = ''win32''
         then (let w = replace_all (CHR 0x09) '' ''
                         (replace_all (CHR 0x0A) '' ''
                           (replace_all (CHR 0x22) [CHR 0x5C, CHR 0x22] t))
               in ''powershell -command '' @ [CHR 0x22] @ ''Set-Clipboard -Value ''
                    @ [CHR 0x27] @ replace_all (CHR 0x27) [CHR 0x27, CHR 0x27] w @ [CHR 0x27]
                    @ [CHR 0x22])
         else ''printf '' @ [CHR 0x22] @ ''%s'' @ [CHR 0x22] @ '' '' @ [CHR 0x22] @ t @ [CHR 0x22]
                @ '' | xclip -selection clipboard'')"

text \<open>One character of the escaped text, for a character of the trimmed text.\<close>

definition escape_char :: "char \<Rightarrow> string" where
  "escape_char c =
     (if c = CHR 0x5C then [CHR 0x5C, CHR 0x5C]
      else if c = CHR 0x22 then [CHR 0x5C, CHR 0x22]
      else if c = CHR ''$'' then [CHR 0x5C, CHR ''$'']
      else if c = CHR 0x60 then [CHR 0x5C, CHR 0x60]
      else if c = CHR 0x0A \<or> c = CHR 0x09 then '' ''
      else [c])"

section \<open>Data model\<close>

datatype exchange_type = Prompt | Clarification | Refinement

text \<open>The values of the field \<open>executionResults\<close>: absent, \<open>null\<close>, a string, or an object
  \<open>{ output, error }\<close>.\<close>

datatype js_value = Undefined | Null | Str string | Outcome string bool

text \<open>\<open>v?.output\<close> and \<open>v?.error\<close>: a string primitive has neither property.\<close>

fun output_of :: "js_value \<Rightarrow> string option" where
  "output_of (Outcome out err) = Some out"
| "output_of v = None"

fun error_of :: "js_value \<Rightarrow> bool" where
  "error_of (Outcome out err) = err"
| "error_of v = False"

text \<open>Truthiness, and the text a template literal makes of the value.\<close>

fun truthy :: "js_value \<Rightarrow> bool" where
  "truthy Undefined = False"
| "truthy Null = False"
| "truthy (Str s) = (s \<noteq> [])"
| "truthy (Outcome out err) = True"

fun interpolate :: "js_value \<Rightarrow> string" where
  "interpolate Undefined = ''undefined''"
| "interpolate Null = ''null''"
| "interpolate (Str s) = s"
| "interpolate (Outcome out err) = ''[object Object]''"

record parameter =
  param_name :: string
  param_description :: string
  param_required :: bool
  param_defaultValue :: string

text \<open>The object the generation call returns (\<open>commandSchema\<close> and \<open>scriptSchema\<close> of
  prompt.js in one record; a field the schema of the mode lacks reads as empty or false).\<close>

record generated_result =
  content :: string
  explanation :: string
  changelog :: string
  clarification_needed :: string
  destructive :: bool
  should_be_script :: bool
  caution :: string
  breakdown :: "(string \<times> string) list"
  script_name :: string
  hasParameters :: bool
  parameters :: "parameter list"
  dependencies :: string

text \<open>An exchange (\<open>currentCommand\<close> and the entries of \<open>commandHistory\<close>). A field the
  object literal leaves out is \<open>None\<close>, \<open>False\<close> or \<open>Undefined\<close>.\<close>

record exchange =
  request :: string
  existingScript :: "string option"
  response :: "generated_result option"
  refusedClarification :: bool
  type :: exchange_type
  executionResults :: js_value
  previousExecutionResults :: js_value

record configuration =
  defaultModel :: string
  models :: "string list"
  scriptsDir :: string
  providers :: "string list"

text \<open>
  Exchanges are JavaScript objects: the context holds references to them, and membership of
  \<open>currentCommand\<close> in \<open>commandHistory\<close> is membership of a reference. The store is the list
  of all exchange objects allocated so far; a reference is an index into it, and an object
  literal allocates the next index. The array \<open>commandHistory\<close> is referenced by the context
  only, so it is a value of the context record.
\<close>

type_synonym store = "exchange list"

record ctx =
  config :: "configuration option"
  model :: string
  currentCommand :: nat
  commandHistory :: "nat list"
  scriptMode :: bool
  scriptName :: "string option"
  hasMultipleModels :: bool
  modelChanged :: bool
  debug :: bool

datatype state =
  NEW | USER_REQUEST | USER_RESPONSE | REQUEST_CLARIFICATION | EXECUTE_COMMAND | REFINE
  | CHANGE_MODEL | SAVE_SCRIPT | SCRIPT_SELECTION | SETUP | EXIT
  | UNDEFINED_STATE

text \<open>\<open>UNDEFINED_STATE\<close> is the value of \<open>State.DEBUG\<close>: the object \<open>State\<close> of machine.js has no
  such key.\<close>

text \<open>What a handler returns: \<open>{ nextState, context }\<close>, the context possibly left out.\<close>

record transition =
  nextState :: state
  ctxt :: "ctx option"

text \<open>How an asynchronous call ends: it returns; or the process ends (\<open>process.exit\<close>, or an
  error no handler catches, which \<open>main().catch\<close> turns into \<open>process.exit(1)\<close>); or its
  promise never settles.\<close>

datatype 'a outcome = Returns 'a | Aborts | Pending

text \<open>How an enquirer prompt ends: with an answer, or rejected (cancelled).\<close>

datatype 'a prompt_result = Answer 'a | Rejected

text \<open>The object literal \<open>{ request, type }\<close>.\<close>

definition new_exchange :: "string \<Rightarrow> exchange_type \<Rightarrow> exchange" where
  "new_exchange r t =
     \<lparr>request = r, existingScript = None, response = None, refusedClarification = False,
      type = t, executionResults = Undefined, previousExecutionResults = Undefined\<rparr>"

text \<open>\<open>a || b\<close> on optional strings: an absent or empty \<open>a\<close> is falsy.\<close>

definition js_or :: "string option \<Rightarrow> string option \<Rightarrow> string option" where
  "js_or a b = (case a of None \<Rightarrow> b | Some x \<Rightarrow> if x = [] then b else a)"

section \<open>Prompt templates (prompt.js) and the generation request builder (userRequest.js)\<close>

definition changelog_note :: "string \<Rightarrow> string" where
  "changelog_note what =
     [CHR 0x0A, CHR 0x0A]
     @ ''When refining, make sure to include a changelog that summarizes the changes you''
     @ [CHR 0x27] @ ''ve made to the original '' @ what @ ''.''"

definition getClarificationPrompt :: "string \<Rightarrow> string" where
  "getClarificationPrompt req =
     ''I'' @ [CHR 0x27]
     @ ''m providing the following details that were previously missing from my initial request.''
     @ [CHR 0x0A] @ ''  '' @ req @ [CHR 0x0A]
     @ ''  Please use these details to generate a more accurate command.'' @ [CHR 0x0A]
     @ ''  If the above clarification is not sufficient then ask for further clarification.''
     @ [CHR 0x0A, CHR 0x0A]
     @ ''  make sure to include a changelog that summarizes the changes you'' @ [CHR 0x27]
     @ ''ve made to the original command or script.'' @ [CHR 0x0A] @ ''  ''"

definition getRefinementPrompt :: "string option \<Rightarrow> string \<Rightarrow> js_value \<Rightarrow> string" where
  "getRefinementPrompt existing req results =
     (let without_script =
            (if truthy results
             then ''We ran it and got these results: '' @ interpolate results
                    @ ''. Please refine based on the following request: '' @ req
                    @ changelog_note ''command or script''
             else ''Please refine the previous response based on the following request:''
                    @ [CHR 0x0A] @ ''  '' @ req @ [CHR 0x0A] @ ''  ''
                    @ changelog_note ''command or script'')
      in case existing of
           None \<Rightarrow> without_script
         | Some script \<Rightarrow>
             if script = [] then without_script
             else ''Refine the following script: '' @ script
                    @ '' based on on the following request: '' @ req @ changelog_note ''script'')"

text \<open>\<open>getPrompt\<close> of \<open>buildMessagesLLM\<close>: the user turn of an exchange. It passes the
  exchange's \<open>request\<close> and \<open>executionResults\<close>, and no \<open>existingScript\<close>.\<close>

definition getPrompt :: "exchange \<Rightarrow> string" where
  "getPrompt command =
     (if type command = Clarification then getClarificationPrompt (request command)
      else if type command = Refinement
      then getRefinementPrompt None (request command) (executionResults command)
      else request command)"

text \<open>A message of the request. The system prompt is a fixed template of the mode; the
  assistant turn carries \<open>JSON.stringify(command.response)\<close>, kept here as the response.\<close>

datatype message =
  SystemMessage bool
  | UserMessage string
  | AssistantMessage "generated_result option"

definition buildMessagesLLM :: "store \<Rightarrow> ctx \<Rightarrow> message list" where
  "buildMessagesLLM objs c =
     SystemMessage (scriptMode c)
     # concat (map (\<lambda>a. [UserMessage (getPrompt (objs ! a)), AssistantMessage (response (objs ! a))])
                (commandHistory c))
     @ [UserMessage (getPrompt (objs ! currentCommand c))]"


section \<open>State handlers\<close>

subsection \<open>NEW (states/new.js)\<close>

text \<open>\<open>Array.prototype.findIndex\<close>: the index of the first match, or \<open>-1\<close>.\<close>

fun findIndex :: "('a \<Rightarrow> bool) \<Rightarrow> 'a list \<Rightarrow> int" where
  "findIndex p [] = - 1"
| "findIndex p (x # xs) =
     (if p x then 0 else (let i = findIndex p xs in if i < 0 then - 1 else i + 1))"

text \<open>
  The menu of the first prompt. The Select prompt of enquirer replaces the entries of the
  array it is given by choice objects whose \<open>name\<close> is the label, and answers with the label
  chosen; so \<open>option.name === answer\<close> in the source compares labels.
\<close>

definition menu_options :: "string list \<Rightarrow> string list" where
  "menu_options scripts =
     [''Generate a command'', ''Generate a script'']
     @ (if scripts \<noteq> [] then [''Refine an existing script''] else [])"

definition handleNew ::
  "string list \<Rightarrow> string prompt_result \<Rightarrow> string prompt_result \<Rightarrow> store \<Rightarrow> ctx
     \<Rightarrow> (transition \<times> store) outcome" where
  "handleNew scripts selectAnswer inputAnswer objs c =
     (let hasScriptsToRefine = (scripts \<noteq> [])
      in case selectAnswer of
           Rejected \<Rightarrow> Returns (\<lparr>nextState = EXIT, ctxt = Some c\<rparr>, objs)
         | Answer answer \<Rightarrow>
             (let selectedIndex = findIndex (\<lambda>option. option = answer) (menu_options scripts)
              in if hasScriptsToRefine \<and> selectedIndex = 2
                 then Returns (\<lparr>nextState = SCRIPT_SELECTION, ctxt = Some c\<rparr>, objs)
                 else (let isScriptMode = (selectedIndex = 1)
                       in case inputAnswer of
                            Rejected \<Rightarrow> Returns (\<lparr>nextState = EXIT, ctxt = Some c\<rparr>, objs)
                          | Answer req \<Rightarrow>
                              if trim req = []
                              then Returns (\<lparr>nextState = EXIT, ctxt = Some c\<rparr>, objs)
                              else Returns
                                (\<lparr>nextState = USER_REQUEST,
                                  ctxt = Some (c\<lparr>currentCommand := length objs,
                                                scriptMode := isScriptMode\<rparr>)\<rparr>,
                                 objs @ [new_exchange req Prompt]))))"

subsection \<open>SCRIPT_SELECTION (states/scriptSelection.js)\<close>

definition handleScriptSelection ::
  "string list \<Rightarrow> string prompt_result \<Rightarrow> string option \<Rightarrow> string prompt_result \<Rightarrow> store \<Rightarrow> ctx
     \<Rightarrow> (transition \<times> store) outcome" where
  "handleScriptSelection scripts selectAnswer loaded inputAnswer objs c =
     (if scripts = [] then Returns (\<lparr>nextState = NEW, ctxt = Some c\<rparr>, objs)
      else case selectAnswer of
             Rejected \<Rightarrow> Returns (\<lparr>nextState = EXIT, ctxt = Some c\<rparr>, objs)
           | Answer selectedScript \<Rightarrow>
               (case loaded of
                  None \<Rightarrow> Returns (\<lparr>nextState = EXIT, ctxt = Some c\<rparr>, objs)
                | Some scriptContent \<Rightarrow>
                    if scriptContent = []
                    then Returns (\<lparr>nextState = EXIT, ctxt = Some c\<rparr>, objs)
                    else (case inputAnswer of
                            Rejected \<Rightarrow> Returns (\<lparr>nextState = EXIT, ctxt = Some c\<rparr>, objs)
                          | Answer refinementRequest \<Rightarrow>
                              Returns
                                (\<lparr>nextState = USER_REQUEST,
                                  ctxt = Some (c\<lparr>currentCommand := length objs,
                                                scriptName := Some selectedScript,
                                                scriptMode := True\<rparr>)\<rparr>,
                                 objs @ [(new_exchange
                                            (getRefinementPrompt (Some scriptContent)
                                               refinementRequest Undefined)
                                            Prompt)
                                          \<lparr>existingScript := Some scriptContent\<rparr>]))))"

subsection \<open>SETUP (states/setup.js)\<close>

text \<open>
  The setup dialogue builds a configuration from a sequence of prompts. Its ends are: the
  model selection is rejected twice (\<open>EXIT\<close>); no model was selected (\<open>EXIT\<close>); a prompt that
  no \<open>try\<close> guards is rejected, the default-model prompt is rejected or the file cannot be
  written (the process ends); or the configuration is saved. The handler then writes
  \<open>config\<close>, \<open>model\<close> and \<open>hasMultipleModels\<close> into the context. It reads
  \<open>context.request\<close>, a key no context has, so the branch to \<open>USER_REQUEST\<close> is never taken
  and the next state is \<open>NEW\<close>.
\<close>

datatype setup_outcome =
  SetupCancelled | SetupNoModels | SetupAborted | SetupSaved configuration

definition handleSetup :: "setup_outcome \<Rightarrow> store \<Rightarrow> ctx \<Rightarrow> (transition \<times> store) outcome" where
  "handleSetup setupOutcome objs c =
     (case setupOutcome of
        SetupCancelled \<Rightarrow> Returns (\<lparr>nextState = EXIT, ctxt = Some c\<rparr>, objs)
      | SetupNoModels \<Rightarrow> Returns (\<lparr>nextState = EXIT, ctxt = Some c\<rparr>, objs)
      | SetupAborted \<Rightarrow> Aborts
      | SetupSaved cfg \<Rightarrow>
          Returns
            (\<lparr>nextState = NEW,
              ctxt = Some (c\<lparr>config := Some cfg, model := defaultModel cfg,
                            hasMultipleModels := (length (models cfg) > 1)\<rparr>)\<rparr>,
             objs))"

subsection \<open>USER_REQUEST (states/userRequest.js)\<close>

datatype gen_outcome = Generated generated_result | NoObject | GenerationError

text \<open>The name made in script mode from \<open>result.script_name || "generated-script"\<close> and the
  random hash.\<close>

definition new_script_name ::
  "generated_result \<Rightarrow> 8 word \<times> 8 word \<times> 8 word \<times> 8 word \<Rightarrow> string" where
  "new_script_name result bytes =
     kebab_case (if script_name result \<noteq> [] then script_name result else ''generated-script'')
     @ ''-'' @ generateRandomHash bytes"

definition handleUserRequest ::
  "gen_outcome \<Rightarrow> 8 word \<times> 8 word \<times> 8 word \<times> 8 word \<Rightarrow> bool prompt_result \<Rightarrow> store \<Rightarrow> ctx
     \<Rightarrow> (transition \<times> store) outcome" where
  "handleUserRequest generation bytes confirmAnswer objs c =
     (case generation of
        GenerationError \<Rightarrow> Returns (\<lparr>nextState = EXIT, ctxt = Some c\<rparr>, objs)
      | NoObject \<Rightarrow>
          Returns (\<lparr>nextState = EXIT, ctxt = (if scriptMode c then Some c else None)\<rparr>, objs)
      | Generated result \<Rightarrow>
          (let newScriptName =
                 (if scriptMode c then Some (new_script_name result bytes) else None);
               objs' = objs @ [(objs ! currentCommand c)\<lparr>response := Some result\<rparr>];
               newContext = c\<lparr>currentCommand := length objs,
                               scriptName := js_or (scriptName c) newScriptName\<rparr>
           in if \<not> scriptMode c \<and> should_be_script result \<and> confirmAnswer = Answer True
              then Returns (\<lparr>nextState = USER_REQUEST, ctxt = Some (c\<lparr>scriptMode := True\<rparr>)\<rparr>,
                            objs')
              else if \<not> refusedClarification (objs ! currentCommand c)
                      \<and> clarification_needed result \<noteq> []
                      \<and> trim (clarification_needed result) \<noteq> []
              then Returns (\<lparr>nextState = REQUEST_CLARIFICATION, ctxt = Some newContext\<rparr>, objs')
              else Returns (\<lparr>nextState = USER_RESPONSE, ctxt = Some newContext\<rparr>, objs')))"

subsection \<open>REQUEST_CLARIFICATION (states/requestClarification.js)\<close>

definition handleRequestClarification ::
  "string prompt_result \<Rightarrow> store \<Rightarrow> ctx \<Rightarrow> (transition \<times> store) outcome" where
  "handleRequestClarification inputAnswer objs c =
     (case response (objs ! currentCommand c) of
        None \<Rightarrow> Aborts
      | Some r \<Rightarrow>
          (let refused =
                 Returns (\<lparr>nextState = USER_RESPONSE,
                            ctxt = Some (c\<lparr>currentCommand := length objs\<rparr>)\<rparr>,
                          objs @ [(objs ! currentCommand c)\<lparr>refusedClarification := True\<rparr>])
           in case inputAnswer of
                Rejected \<Rightarrow> refused
              | Answer raw \<Rightarrow>
                  (let clarificationInput = trim raw
                   in if clarificationInput = [] then refused
                      else Returns
                        (\<lparr>nextState = USER_REQUEST,
                          ctxt = Some (c\<lparr>currentCommand := length objs,
                                        commandHistory :=
                                          commandHistory c @ [currentCommand c]\<rparr>)\<rparr>,
                         objs @ [new_exchange clarificationInput Clarification]))))"

subsection \<open>USER_RESPONSE (states/userResponse.js, index.js)\<close>

record key =
  name :: string
  ctrl :: bool

text \<open>What the handler logs before the menu, as far as the changelog and the last output go.\<close>

datatype log_line =
  LogHeader string | LogNl | LogInfo string | LogWarning string | LogText string
  | LogError string | LogDetail string

definition display_changelog :: "exchange \<Rightarrow> log_line list" where
  "display_changelog currentCommand' =
     (case response currentCommand' of
        None \<Rightarrow> []
      | Some r \<Rightarrow>
          if changelog r \<noteq> []
             \<and> (type currentCommand' = Refinement \<or> type currentCommand' = Clarification)
          then [LogWarning (CHR 0x0A # ''Changelog:''), LogText (changelog r), LogNl]
          else [])"

definition display_last_output :: "exchange \<Rightarrow> log_line list" where
  "display_last_output currentCommand' =
     (case output_of (executionResults currentCommand') of
        None \<Rightarrow> []
      | Some out \<Rightarrow>
          if out = [] then []
          else [LogHeader (CHR 0x0A # ''Last Output:''), LogNl,
                if error_of (executionResults currentCommand') then LogError out
                else LogText out])"

text \<open>The listener \<open>setupGlobalKeyHandler\<close> of index.js registers on the same keypress
  events, before any other: Escape and Ctrl+C end the process.\<close>

definition globalKeyHandler_exits :: "key \<Rightarrow> bool" where
  "globalKeyHandler_exits k = (name k = ''escape'' \<or> (ctrl k \<and> name k = ''c''))"

text \<open>
  \<open>keypressHandler\<close> over the keys the user presses, in order: the first key that matches a
  branch resolves the promise; \<open>b\<close> shows the breakdown, where \<open>returnHandler\<close> takes the next
  key, whatever it is, and registers \<open>keypressHandler\<close> again.
\<close>

fun keypressHandler :: "ctx \<Rightarrow> key list \<Rightarrow> transition outcome"
  and returnHandler :: "ctx \<Rightarrow> key list \<Rightarrow> transition outcome" where
  "keypressHandler c [] = Pending"
| "keypressHandler c (k # ks) =
     (if globalKeyHandler_exits k then Aborts
      else if name k = ''return'' then Returns \<lparr>nextState = EXECUTE_COMMAND, ctxt = Some c\<rparr>
      else if name k = ''c'' then Returns \<lparr>nextState = EXIT, ctxt = Some c\<rparr>
      else if name k = ''b'' \<and> \<not> scriptMode c then returnHandler c ks
      else if name k = ''s'' \<and> \<not> scriptMode c
      then Returns \<lparr>nextState = USER_REQUEST, ctxt = Some (c\<lparr>scriptMode := True\<rparr>)\<rparr>
      else if name k = ''d'' \<and> debug c then Returns \<lparr>nextState = UNDEFINED_STATE, ctxt = Some c\<rparr>
      else if name k = ''m'' \<and> hasMultipleModels c
      then Returns \<lparr>nextState = CHANGE_MODEL, ctxt = Some c\<rparr>
      else if name k = ''r'' then Returns \<lparr>nextState = REFINE, ctxt = Some c\<rparr>
      else if ctrl k \<and> name k = ''c'' then Returns \<lparr>nextState = EXIT, ctxt = Some c\<rparr>
      else keypressHandler c ks)"
| "returnHandler c [] = Pending"
| "returnHandler c (k # ks) = (if globalKeyHandler_exits k then Aborts else keypressHandler c ks)"

definition handleUserResponse :: "key list \<Rightarrow> store \<Rightarrow> ctx \<Rightarrow> (transition \<times> store) outcome" where
  "handleUserResponse keypresses objs c =
     (case response (objs ! currentCommand c) of
        None \<Rightarrow> Aborts
      | Some r \<Rightarrow>
          (case keypressHandler c keypresses of
             Returns t \<Rightarrow> Returns (t, objs)
           | Aborts \<Rightarrow> Aborts
           | Pending \<Rightarrow> Pending))"

text \<open>The text the \<open>c\<close> key hands to \<open>copyToClipboard\<close>, and the command as
  \<open>displayPromptAndHistory\<close> renders it in command mode.\<close>

definition copied_text :: "string \<Rightarrow> generated_result \<Rightarrow> string" where
  "copied_text platform r = clipboard_text platform (trim (content r))"

definition rendered_command :: "generated_result \<Rightarrow> string" where
  "rendered_command r = trim (content r)"

subsection \<open>REFINE (states/refine.js)\<close>

definition handleRefine :: "string prompt_result \<Rightarrow> store \<Rightarrow> ctx \<Rightarrow> (transition \<times> store) outcome" where
  "handleRefine inputAnswer objs c =
     (case inputAnswer of
        Rejected \<Rightarrow> Returns (\<lparr>nextState = USER_RESPONSE, ctxt = Some c\<rparr>, objs)
      | Answer refinementRequest \<Rightarrow>
          if trim refinementRequest = []
          then Returns (\<lparr>nextState = USER_RESPONSE, ctxt = Some c\<rparr>, objs)
          else Returns
            (\<lparr>nextState = USER_REQUEST,
              ctxt = Some (c\<lparr>currentCommand := length objs,
                            commandHistory := commandHistory c @ [currentCommand c]\<rparr>)\<rparr>,
             objs @ [(new_exchange refinementRequest Refinement)
                      \<lparr>previousExecutionResults :=
                         executionResults (objs ! currentCommand c)\<rparr>]))"

subsection \<open>CHANGE_MODEL (states/changeModel.js)\<close>

definition handleChangeModel ::
  "string prompt_result \<Rightarrow> store \<Rightarrow> ctx \<Rightarrow> (transition \<times> store) outcome" where
  "handleChangeModel selectAnswer objs c =
     (case config c of
        None \<Rightarrow> Aborts
      | Some cfg \<Rightarrow>
          (case selectAnswer of
             Rejected \<Rightarrow> Returns (\<lparr>nextState = EXIT, ctxt = Some c\<rparr>, objs)
           | Answer selectedModel \<Rightarrow>
               if selectedModel = model c
               then Returns (\<lparr>nextState = USER_RESPONSE, ctxt = Some c\<rparr>, objs)
               else Returns
                 (\<lparr>nextState = USER_REQUEST,
                   ctxt = Some (c\<lparr>model := selectedModel, modelChanged := True\<rparr>)\<rparr>,
                  objs[currentCommand c := (objs ! currentCommand c)\<lparr>executionResults := Null\<rparr>])))"

text \<open>
  The source tree holds a second version of this handler. It differs in three places:
  choosing the current model returns the bare context, an object without \<open>nextState\<close>, so the
  loop reads an undefined state; a new model leaves the execution results of the current
  exchange alone; a cancelled prompt leads to \<open>USER_RESPONSE\<close>. The machine below runs the
  first version.
\<close>

definition handleChangeModel_variant ::
  "string prompt_result \<Rightarrow> store \<Rightarrow> ctx \<Rightarrow> (transition \<times> store) outcome" where
  "handleChangeModel_variant selectAnswer objs c =
     (case config c of
        None \<Rightarrow> Aborts
      | Some cfg \<Rightarrow>
          (case selectAnswer of
             Rejected \<Rightarrow> Returns (\<lparr>nextState = USER_RESPONSE, ctxt = Some c\<rparr>, objs)
           | Answer selectedModel \<Rightarrow>
               if selectedModel = model c
               then Returns (\<lparr>nextState = UNDEFINED_STATE, ctxt = None\<rparr>, objs)
               else Returns
                 (\<lparr>nextState = USER_REQUEST,
                   ctxt = Some (c\<lparr>model := selectedModel, modelChanged := True\<rparr>)\<rparr>,
                  objs)))"

subsection \<open>SAVE_SCRIPT (states/saveScript.js)\<close>

definition handleSaveScript :: "store \<Rightarrow> ctx \<Rightarrow> (transition \<times> store) outcome" where
  "handleSaveScript objs c =
     (case response (objs ! currentCommand c) of
        None \<Rightarrow> Aborts
      | Some scriptResult \<Rightarrow>
          (case (config c, scriptName c) of
             (Some cfg, Some n) \<Rightarrow> Returns (\<lparr>nextState = EXIT, ctxt = Some c\<rparr>, objs)
           | _ \<Rightarrow> Aborts))"

subsection \<open>EXECUTE_COMMAND (states/executeCommand.js)\<close>

text \<open>\<open>path.join\<close>, without the normalisation Node applies to the result; the model does not
  interpret the path.\<close>

fun path_join :: "string list \<Rightarrow> string" where
  "path_join [] = ''.''"
| "path_join [p] = p"
| "path_join (p # ps) = p @ ''/'' @ path_join ps"

text \<open>The parameters typed into the form: one \<open>--name="value"\<close> per declared parameter with a
  non-blank answer, then the free-form field.\<close>

definition paramString_of_form :: "parameter list \<Rightarrow> (string \<times> string) list \<Rightarrow> string" where
  "paramString_of_form ps answers =
     concat (map (\<lambda>p. case map_of answers (param_name p) of
                          None \<Rightarrow> []
                        | Some v \<Rightarrow>
                            if trim v \<noteq> []
                            then '' --'' @ param_name p @ ''='' @ [CHR 0x22] @ trim v @ [CHR 0x22]
                            else []) ps)
     @ (case map_of answers ''additionalParams'' of
          None \<Rightarrow> []
        | Some v \<Rightarrow> if trim v \<noteq> [] then '' '' @ trim v else [])"

text \<open>The invocation string. In script mode the script is saved first; a missing script
  name or configuration makes \<open>path.join\<close> throw outside every \<open>try\<close>. A rejected parameter
  prompt is caught: the script runs without parameters.\<close>

definition build_command ::
  "(string \<times> string) list prompt_result \<Rightarrow> string prompt_result \<Rightarrow> store \<Rightarrow> ctx \<Rightarrow> string outcome"
  where
  "build_command formAnswers parametersAnswer objs c =
     (case response (objs ! currentCommand c) of
        None \<Rightarrow> Aborts
      | Some scriptResult \<Rightarrow>
          if scriptMode c
          then (case (config c, scriptName c) of
                  (Some cfg, Some n) \<Rightarrow>
                    (let command = ''node '' @ path_join [scriptsDir cfg, n, ''index.js''];
                         paramString =
                           (if hasParameters scriptResult
                            then (if parameters scriptResult \<noteq> []
                                  then (case formAnswers of
                                          Rejected \<Rightarrow> []
                                        | Answer answers \<Rightarrow>
                                            paramString_of_form (parameters scriptResult) answers)
                                  else (case parametersAnswer of
                                          Rejected \<Rightarrow> []
                                        | Answer ps \<Rightarrow>
                                            if trim ps \<noteq> [] then '' '' @ trim ps else []))
                            else [])
                     in Returns (if trim paramString \<noteq> [] then command @ paramString
                                 else command))
                | _ \<Rightarrow> Aborts)
          else Returns (trim (content scriptResult)))"

text \<open>
  The child process is seen through the events it emits, in order: data on its standard
  output and standard error, an interrupt signal delivered to the parent while the child
  runs, and the event that settles the promise, \<open>close\<close> (with the exit code, \<open>null\<close> when a
  signal ended the child) or \<open>error\<close>.
\<close>

datatype child_event =
  Stdout string | Stderr string | Sigint | Close "nat option" | ChildError string

text \<open>The variables the callbacks share, and the two things they do to the process: the
  listeners registered on \<open>process\<close> for SIGINT, and the signals sent to the child.\<close>

record exec_state =
  executionOutput :: string
  hasError :: bool
  terminatedByUser :: bool
  sigintListeners :: nat
  childSignals :: nat

datatype settlement = Resolved | RejectedWith string

definition sigintHandler :: "exec_state \<Rightarrow> exec_state" where
  "sigintHandler x = x\<lparr>terminatedByUser := True, childSignals := childSignals x + 1\<rparr>"

definition on_stdout :: "string \<Rightarrow> exec_state \<Rightarrow> exec_state" where
  "on_stdout t x = x\<lparr>executionOutput := executionOutput x @ t\<rparr>"

definition on_stderr :: "string \<Rightarrow> exec_state \<Rightarrow> exec_state" where
  "on_stderr t x = x\<lparr>executionOutput := executionOutput x @ t, hasError := True\<rparr>"

definition on_close :: "nat option \<Rightarrow> exec_state \<Rightarrow> exec_state \<times> settlement" where
  "on_close code x =
     (x\<lparr>sigintListeners := sigintListeners x - 1\<rparr>,
      if code = Some 0 \<or> terminatedByUser x then Resolved
      else RejectedWith (''Command exited with code ''
                          @ (case code of None \<Rightarrow> ''null'' | Some n \<Rightarrow> decimal n)))"

definition on_error :: "string \<Rightarrow> exec_state \<Rightarrow> exec_state \<times> settlement" where
  "on_error msg x = (x, RejectedWith (''Failed to start command: '' @ msg))"

text \<open>The promise the handler awaits: the callbacks run on the events until one settles it.
  A child that emits neither \<open>close\<close> nor \<open>error\<close> leaves it pending.\<close>

fun await_child :: "child_event list \<Rightarrow> exec_state \<Rightarrow> (exec_state \<times> settlement) outcome" where
  "await_child [] x = Pending"
| "await_child (Stdout t # es) x = await_child es (on_stdout t x)"
| "await_child (Stderr t # es) x = await_child es (on_stderr t x)"
| "await_child (Sigint # es) x = await_child es (sigintHandler x)"
| "await_child (Close code # es) x = Returns (on_close code x)"
| "await_child (ChildError msg # es) x = Returns (on_error msg x)"

text \<open>The \<open>try\<close> block around the child: \<open>process.on("SIGINT", sigintHandler)\<close>, the awaited
  promise, and the \<open>catch\<close> that records a rejection in the output.\<close>

definition run_child :: "child_event list \<Rightarrow> nat \<Rightarrow> exec_state outcome" where
  "run_child events installed =
     (case await_child events
             \<lparr>executionOutput = [], hasError = False, terminatedByUser = False,
              sigintListeners = installed + 1, childSignals = 0\<rparr> of
        Pending \<Rightarrow> Pending
      | Aborts \<Rightarrow> Aborts
      | Returns (x, Resolved) \<Rightarrow> Returns x
      | Returns (x, RejectedWith msg) \<Rightarrow>
          Returns (x\<lparr>hasError := True,
                     executionOutput := executionOutput x @ ''Error: '' @ msg @ [CHR 0x0A]\<rparr>))"

text \<open>The prompt after the run, on the truncated output.\<close>

definition refine_after_run ::
  "string \<Rightarrow> string prompt_result \<Rightarrow> store \<Rightarrow> ctx \<Rightarrow> transition \<times> store" where
  "refine_after_run output refinementAnswer objs c =
     (case refinementAnswer of
        Rejected \<Rightarrow> (\<lparr>nextState = EXECUTE_COMMAND, ctxt = Some c\<rparr>, objs)
      | Answer answer \<Rightarrow>
          if trim answer = [] then (\<lparr>nextState = EXIT, ctxt = Some c\<rparr>, objs)
          else (\<lparr>nextState = USER_REQUEST,
                  ctxt = Some (c\<lparr>currentCommand := length objs,
                                commandHistory := commandHistory c @ [currentCommand c]\<rparr>)\<rparr>,
                objs @ [(new_exchange answer Refinement)\<lparr>executionResults := Str output\<rparr>]))"

definition handleExecuteCommand ::
  "(string \<times> string) list prompt_result \<Rightarrow> string prompt_result \<Rightarrow> child_event list
     \<Rightarrow> string prompt_result \<Rightarrow> nat \<Rightarrow> store \<Rightarrow> ctx \<Rightarrow> (transition \<times> store \<times> nat) outcome" where
  "handleExecuteCommand formAnswers parametersAnswer events refinementAnswer installed objs c =
     (case build_command formAnswers parametersAnswer objs c of
        Aborts \<Rightarrow> Aborts
      | Pending \<Rightarrow> Pending
      | Returns command \<Rightarrow>
          (case run_child events installed of
             Aborts \<Rightarrow> Aborts
           | Pending \<Rightarrow> Pending
           | Returns x \<Rightarrow>
               (case refine_after_run (truncate_output (executionOutput x)) refinementAnswer objs c of
                  (t, objs') \<Rightarrow> Returns (t, objs', sigintListeners x))))"

section \<open>The state machine runner (machine.js) and the entry point (index.js)\<close>

text \<open>What the user, the model, the file system and the child process do during one
  iteration of the loop.\<close>

record env =
  e_generation :: gen_outcome
  e_randomBytes :: "8 word \<times> 8 word \<times> 8 word \<times> 8 word"
  e_confirm :: "bool prompt_result"
  e_select :: "string prompt_result"
  e_input :: "string prompt_result"
  e_keypresses :: "key list"
  e_availableScripts :: "string list"
  e_loadedScript :: "string option"
  e_setup :: setup_outcome
  e_form :: "(string \<times> string) list prompt_result"
  e_parameters :: "string prompt_result"
  e_childEvents :: "child_event list"
  e_refinement :: "string prompt_result"

record machine =
  currentState :: state
  mcontext :: ctx
  objects :: store
  listeners :: nat

text \<open>\<open>{ ...context, ...result.context }\<close>: every context a handler returns is a copy of the
  one it was given with some keys replaced, so the merge is the returned context; a result
  without a context leaves the context as it is.\<close>

definition merge_context :: "ctx \<Rightarrow> ctx option \<Rightarrow> ctx" where
  "merge_context c d = (case d of None \<Rightarrow> c | Some c' \<Rightarrow> c')"

definition with_listeners ::
  "nat \<Rightarrow> (transition \<times> store) outcome \<Rightarrow> (transition \<times> store \<times> nat) outcome" where
  "with_listeners n r =
     (case r of Returns (t, objs) \<Rightarrow> Returns (t, objs, n) | Aborts \<Rightarrow> Aborts | Pending \<Rightarrow> Pending)"

text \<open>The \<open>switch\<close> of the loop; \<open>None\<close> is its \<open>default\<close> branch.\<close>

definition dispatch :: "env \<Rightarrow> machine \<Rightarrow> (transition \<times> store \<times> nat) outcome option" where
  "dispatch e m =
     (let c = mcontext m; objs = objects m; n = listeners m
      in case currentState m of
           NEW \<Rightarrow> Some (with_listeners n
                          (handleNew (e_availableScripts e) (e_select e) (e_input e) objs c))
         | USER_REQUEST \<Rightarrow>
             Some (with_listeners n
                     (handleUserRequest (e_generation e) (e_randomBytes e) (e_confirm e) objs c))
         | REQUEST_CLARIFICATION \<Rightarrow>
             Some (with_listeners n (handleRequestClarification (e_input e) objs c))
         | USER_RESPONSE \<Rightarrow> Some (with_listeners n (handleUserResponse (e_keypresses e) objs c))
         | EXECUTE_COMMAND \<Rightarrow>
             Some (handleExecuteCommand (e_form e) (e_parameters e) (e_childEvents e)
                     (e_refinement e) n objs c)
         | REFINE \<Rightarrow> Some (with_listeners n (handleRefine (e_input e) objs c))
         | CHANGE_MODEL \<Rightarrow> Some (with_listeners n (handleChangeModel (e_select e) objs c))
         | SAVE_SCRIPT \<Rightarrow> Some (with_listeners n (handleSaveScript objs c))
         | SCRIPT_SELECTION \<Rightarrow>
             Some (with_listeners n
                     (handleScriptSelection (e_availableScripts e) (e_select e) (e_loadedScript e)
                        (e_input e) objs c))
         | SETUP \<Rightarrow> Some (with_listeners n (handleSetup (e_setup e) objs c))
         | EXIT \<Rightarrow> None
         | UNDEFINED_STATE \<Rightarrow> None)"

text \<open>One iteration of the loop body, from a state other than \<open>EXIT\<close>.\<close>

definition iteration :: "env \<Rightarrow> machine \<Rightarrow> machine outcome option" where
  "iteration e m =
     (case dispatch e m of
        None \<Rightarrow> None
      | Some Aborts \<Rightarrow> Some Aborts
      | Some Pending \<Rightarrow> Some Pending
      | Some (Returns (t, objs', n')) \<Rightarrow>
          Some (Returns \<lparr>currentState = nextState t,
                         mcontext = merge_context (mcontext m) (ctxt t),
                         objects = objs', listeners = n'\<rparr>))"

text \<open>
  \<open>runStateMachine\<close>, driven by the list of what happens in each iteration. The loop stops
  at \<open>EXIT\<close> and at a state without a handler; the result is the machine where it stopped,
  or the machine reached when the list is used up.
\<close>

fun runStateMachine :: "env list \<Rightarrow> machine \<Rightarrow> machine outcome" where
  "runStateMachine [] m = Returns m"
| "runStateMachine (e # es) m =
     (if currentState m = EXIT then Returns m
      else case iteration e m of
             None \<Rightarrow> Returns m
           | Some Aborts \<Rightarrow> Aborts
           | Some Pending \<Rightarrow> Pending
           | Some (Returns m') \<Rightarrow> runStateMachine es m')"

text \<open>\<open>s.split(c)\<close> for a separator of one character.\<close>

fun split_on :: "char \<Rightarrow> string \<Rightarrow> string list" where
  "split_on sep [] = [[]]"
| "split_on sep (c # cs) =
     (if c = sep then [] # split_on sep cs
      else (case split_on sep cs of [] \<Rightarrow> [[c]] | p # ps \<Rightarrow> (c # p) # ps))"

record cli_options =
  request_argument :: string
  model_option :: "string option"
  script_option :: bool
  refineScripts_option :: bool
  setup_option :: bool

text \<open>\<open>entry\<close> of index.js, from the parsed command line and the configuration \<open>getConfig\<close>
  returned (\<open>None\<close> for the empty object): the machine \<open>runStateMachine\<close> starts from.\<close>

definition entry :: "cli_options \<Rightarrow> configuration option \<Rightarrow> machine outcome" where
  "entry opts loaded =
     (let checked =
            (case model_option opts of
               None \<Rightarrow> Returns loaded
             | Some m \<Rightarrow>
                 if m = [] then Returns loaded
                 else (case split_on (CHR ''/'') m of
                         [provider, modelName] \<Rightarrow>
                           (case loaded of
                              None \<Rightarrow> Aborts
                            | Some cfg \<Rightarrow>
                                if provider \<notin> set (providers cfg) \<and> provider \<noteq> ''ollama''
                                then Aborts
                                else Returns (Some (cfg\<lparr>defaultModel := m\<rparr>)))
                       | _ \<Rightarrow> Aborts))
      in case checked of
           Aborts \<Rightarrow> Aborts
         | Pending \<Rightarrow> Pending
         | Returns cfg \<Rightarrow>
             Returns
               \<lparr>currentState =
                  (if cfg = None \<or> setup_option opts then SETUP
                   else if refineScripts_option opts then SCRIPT_SELECTION
                   else if request_argument opts = [] then NEW
                   else USER_REQUEST),
                mcontext =
                  \<lparr>config = cfg,
                   model = (case cfg of None \<Rightarrow> [] | Some g \<Rightarrow> defaultModel g),
                   currentCommand = 0,
                   commandHistory = [],
                   scriptMode = script_option opts,
                   scriptName = None,
                   hasMultipleModels = (case cfg of None \<Rightarrow> False | Some g \<Rightarrow> length (models g) > 1),
                   modelChanged = False,
                   debug = False\<rparr>,
                objects = [new_exchange (request_argument opts) Prompt],
                listeners = 0\<rparr>)"

section \<open>Notions the claims are stated with\<close>


text \<open>The states of the generation loop: every state but the three entry states.\<close>

definition main_loop :: "state \<Rightarrow> bool" where
  "main_loop st = (st \<noteq> NEW \<and> st \<noteq> SCRIPT_SELECTION \<and> st \<noteq> SETUP)"


text \<open>A prompt answered with text that is not blank.\<close>

definition answers_text :: "string prompt_result \<Rightarrow> bool" where
  "answers_text a = (case a of Answer s \<Rightarrow> trim s \<noteq> [] | Rejected \<Rightarrow> False)"



text \<open>What one handler call does to the history and the current exchange: either it begins
  a new exchange (the old one is appended and a fresh object becomes current), or the
  history stays and the current exchange is the old object or a fresh copy.\<close>

definition step_ok :: "bool \<Rightarrow> store \<Rightarrow> ctx \<Rightarrow> transition \<Rightarrow> store \<Rightarrow> bool" where
  "step_ok new objs c t objs' =
     (length objs \<le> length objs'
      \<and> (case ctxt t of
            None \<Rightarrow> \<not> new
          | Some c' \<Rightarrow>
              if new
              then commandHistory c' = commandHistory c @ [currentCommand c]
                   \<and> currentCommand c' = length objs \<and> length objs < length objs'
              else commandHistory c' = commandHistory c
                   \<and> (currentCommand c' = currentCommand c
                        \<or> currentCommand c' = length objs \<and> length objs < length objs')))"

section \<open>Example inputs\<close>

definition demo_result :: generated_result where
  "demo_result =
     \<lparr>content = ''ls -la'', explanation = ''lists files'', changelog = [],
      clarification_needed = [], destructive = False, should_be_script = False, caution = [],
      breakdown = [], script_name = [], hasParameters = False, parameters = [],
      dependencies = []\<rparr>"

definition demo_env :: env where
  "demo_env =
     \<lparr>e_generation = Generated demo_result, e_randomBytes = (0x1a, 0x2b, 0x3c, 0x4d),
      e_confirm = Rejected, e_select = Rejected, e_input = Rejected, e_keypresses = [],
      e_availableScripts = [], e_loadedScript = None, e_setup = SetupAborted,
      e_form = Rejected, e_parameters = Rejected, e_childEvents = [],
      e_refinement = Rejected\<rparr>"

definition demo_configuration :: configuration where
  "demo_configuration =
     \<lparr>defaultModel = ''openai/gpt-4'', models = [''openai/gpt-4''], scriptsDir = ''/scripts'',
      providers = [''openai'']\<rparr>"

definition demo_options :: cli_options where
  "demo_options =
     \<lparr>request_argument = ''list files'', model_option = None, script_option = False,
      refineScripts_option = False, setup_option = False\<rparr>"

definition press :: "string \<Rightarrow> key" where
  "press n = \<lparr>name = n, ctrl = False\<rparr>"

definition demo_run :: "env list" where
  "demo_run =
     [demo_env,
      demo_env\<lparr>e_keypresses := [press ''return'']\<rparr>,
      demo_env\<lparr>e_childEvents := [Stdout ''hi'', Close (Some 0)], e_refinement := Answer ''more''\<rparr>,
      demo_env,
      demo_env\<lparr>e_keypresses := [press ''r'']\<rparr>,
      demo_env\<lparr>e_input := Answer ''again''\<rparr>]"

definition demo_start :: machine where
  "demo_start =
     \<lparr>currentState = USER_REQUEST,
      mcontext =
        \<lparr>config = Some demo_configuration, model = ''openai/gpt-4'', currentCommand = 0,
         commandHistory = [], scriptMode = False, scriptName = None,
         hasMultipleModels = False, modelChanged = False, debug = False\<rparr>,
      objects = [new_exchange ''list files'' Prompt],
      listeners = 0\<rparr>"

definition demo_question :: generated_result where
  "demo_question = demo_result\<lparr>content := ''zip -r files.zip .'', clarification_needed := ''Which files?''\<rparr>"

definition demo_context :: ctx where
  "demo_context = mcontext demo_start"

definition demo_asked :: store where
  "demo_asked = [(new_exchange ''zip my files'' Prompt)\<lparr>response := Some demo_question\<rparr>]"


text \<open>A transition that stays in the generation loop and keeps a script name that is set.\<close>

definition keeps_name :: "ctx \<Rightarrow> transition \<Rightarrow> bool" where
  "keeps_name c t =
     (main_loop (nextState t)
      \<and> (\<forall>n. scriptName c = Some n \<and> n \<noteq> [] \<longrightarrow> scriptName (merge_context c (ctxt t)) = Some n))"


definition demo_script_context :: ctx where
  "demo_script_context = demo_context\<lparr>scriptMode := True\<rparr>"

definition demo_script_start :: machine where
  "demo_script_start =
     demo_start\<lparr>mcontext := demo_script_context\<lparr>scriptName := Some ''my-cool-script-1a2b3c4d''\<rparr>\<rparr>"

definition demo_copied :: generated_result where
  "demo_copied =
     demo_result\<lparr>content := ''echo '' @ [CHR 0x22] @ ''$HOME'' @ [CHR 0x22, CHR 0x0A] @ ''ls  ''\<rparr>"

text \<open>Whether the event that settles the promise is \<open>error\<close>.\<close>

fun settled_by_error :: "child_event list \<Rightarrow> bool" where
  "settled_by_error [] = False"
| "settled_by_error (Close code # es) = False"
| "settled_by_error (ChildError msg # es) = True"
| "settled_by_error (ev # es) = settled_by_error es"

text \<open>Events before the one that settles the promise: whether a list holds none that
  settles it, the interrupts in it, the data it carries, and whether any of it came on the
  standard error.\<close>

fun unsettled :: "child_event list \<Rightarrow> bool" where
  "unsettled [] = True"
| "unsettled (Close code # es) = False"
| "unsettled (ChildError msg # es) = False"
| "unsettled (ev # es) = unsettled es"

fun interrupts :: "child_event list \<Rightarrow> nat" where
  "interrupts [] = 0"
| "interrupts (Sigint # es) = Suc (interrupts es)"
| "interrupts (ev # es) = interrupts es"

fun data_of :: "child_event list \<Rightarrow> string" where
  "data_of [] = []"
| "data_of (Stdout t # es) = t @ data_of es"
| "data_of (Stderr t # es) = t @ data_of es"
| "data_of (ev # es) = data_of es"

fun stderr_seen :: "child_event list \<Rightarrow> bool" where
  "stderr_seen [] = False"
| "stderr_seen (Stderr t # es) = True"
| "stderr_seen (ev # es) = stderr_seen es"

definition demo_generated :: store where
  "demo_generated =
     objects demo_start @ [(new_exchange ''list files'' Prompt)\<lparr>response := Some demo_result\<rparr>]"

definition demo_generated_context :: ctx where
  "demo_generated_context = demo_context\<lparr>currentCommand := 1\<rparr>"

definition demo_after_run :: store where
  "demo_after_run =
     demo_generated @ [(new_exchange ''more'' Refinement)\<lparr>executionResults := Str ''hi''\<rparr>]"

definition demo_after_run_context :: ctx where
  "demo_after_run_context = demo_context\<lparr>currentCommand := 2, commandHistory := [1]\<rparr>"

definition demo_reviewed :: store where
  "demo_reviewed = demo_after_run @ [(demo_after_run ! 2)\<lparr>response := Some demo_result\<rparr>]"

definition demo_reviewed_context :: ctx where
  "demo_reviewed_context = demo_after_run_context\<lparr>currentCommand := 3\<rparr>"

definition demo_script_question :: generated_result where
  "demo_script_question = demo_question\<lparr>should_be_script := True\<rparr>"

section \<open>Facts about the string functions\<close>

lemma digit_char_is_digit: "d < 10 \<Longrightarrow> is_digit (digit_char d)"
proof -
  assume "d < 10"
  then have "d \<in> {0, 1, 2, 3, 4, 5, 6, 7, 8, 9}" by auto
  then show ?thesis by (auto simp: digit_char_def is_digit_def)
qed

lemma digit_value_digit_char: "d < 10 \<Longrightarrow> digit_value (digit_char d) = d"
proof -
  assume "d < 10"
  then have "d \<in> {0, 1, 2, 3, 4, 5, 6, 7, 8, 9}" by auto
  then show ?thesis by (auto simp: digit_char_def digit_value_def upt_rec)
qed

lemma decimal_small: "n < 10 \<Longrightarrow> decimal n = [digit_char n]"
  by (subst decimal.simps) simp

lemma decimal_large: "\<not> n < 10 \<Longrightarrow> decimal n = decimal (n div 10) @ [digit_char (n mod 10)]"
  by (subst decimal.simps) simp

lemma decimal_all_digits: "\<forall>c \<in> set (decimal n). is_digit c"
proof (induction n rule: decimal.induct)
  case (1 n)
  show ?case
  proof (cases "n < 10")
    case True
    then show ?thesis by (simp add: decimal_small digit_char_is_digit)
  next
    case False
    with "1" have "\<forall>c \<in> set (decimal (n div 10)). is_digit c" by simp
    moreover have "is_digit (digit_char (n mod 10))" by (simp add: digit_char_is_digit)
    ultimately show ?thesis using False by (simp add: decimal_large)
  qed
qed

lemma read_decimal_snoc: "read_decimal (ds @ [c]) = 10 * read_decimal ds + digit_value c"
  by (simp add: read_decimal_def)

lemma read_decimal_decimal: "read_decimal (decimal n) = n"
proof (induction n rule: decimal.induct)
  case (1 n)
  show ?case
  proof (cases "n < 10")
    case True
    then show ?thesis by (simp add: decimal_small read_decimal_def digit_value_digit_char)
  next
    case False
    with "1" have ih: "read_decimal (decimal (n div 10)) = n div 10" by simp
    show ?thesis
      using False by (simp add: decimal_large read_decimal_snoc ih digit_value_digit_char)
  qed
qed

lemma stated_omitted_marker: "stated_omitted (truncation_marker n) = n"
proof -
  have "takeWhile is_digit (decimal n @ '' more characters]'') = decimal n"
    using decimal_all_digits [of n] by (simp add: takeWhile_append is_digit_def)
  then show ?thesis
    by (simp add: stated_omitted_def truncation_marker_def read_decimal_decimal)
qed

section \<open>Facts about the handlers\<close>










lemma handleChangeModel_variant_ok:
  "handleChangeModel_variant sel objs c = Returns (t, objs') \<Longrightarrow> step_ok False objs c t objs'"
  by (auto simp: handleChangeModel_variant_def step_ok_def
        split: option.splits prompt_result.splits if_splits)












lemma handleUserRequest_total:
  "\<exists>t objs'. handleUserRequest g b cf objs c = Returns (t, objs')"
  by (simp add: handleUserRequest_def Let_def split: gen_outcome.splits)
















lemma handleChangeModel_variant_keeps:
  "handleChangeModel_variant sel objs c = Returns (t, objs') \<Longrightarrow> keeps_name c t"
  by (auto simp: handleChangeModel_variant_def merge_context_def keeps_name_def main_loop_def
        split: option.splits prompt_result.splits if_splits)







lemma escape_for_shell_Cons: "escape_for_shell (x # xs) = escape_char x @ escape_for_shell xs"
  by (simp add: escape_for_shell_def escape_char_def replace_all_def)

lemma escape_for_shell_eq: "escape_for_shell s = concat (map escape_char s)"
  by (induction s) (simp_all add: escape_for_shell_Cons, simp add: escape_for_shell_def replace_all_def)

lemma dropWhile_trim: "dropWhile is_js_whitespace (trim s) = trim s"
proof (cases "trim s")
  case Nil
  then show ?thesis by simp
next
  case (Cons x xs)
  let ?a = "dropWhile is_js_whitespace s"
  have ne: "?a \<noteq> []"
  proof
    assume e: "?a = []"
    have "trim s = rev (dropWhile is_js_whitespace (rev ?a))" by (simp only: trim_def)
    also have "\<dots> = []" by (simp only: e rev.simps dropWhile.simps)
    finally show False using Cons by simp
  qed
  obtain k where k: "trim s = take k ?a"
    by (metis trim_def rev_rev_ident dropWhile_eq_drop rev_drop)
  with Cons ne have "hd (trim s) = hd ?a" by (cases k; cases ?a) auto
  moreover have "\<not> is_js_whitespace (hd ?a)" using ne hd_dropWhile by blast
  ultimately show ?thesis using Cons by simp
qed

lemma trim_idem: "trim (trim s) = trim s"
proof -
  have "dropWhile is_js_whitespace (rev (trim s)) = rev (trim s)"
    by (simp add: trim_def)
  then show ?thesis by (simp add: trim_def [of "trim s"] dropWhile_trim)
qed

lemma await_child_listeners:
  "await_child evs x = Returns (x', s)
   \<Longrightarrow> sigintListeners x'
       = (if settled_by_error evs then sigintListeners x else sigintListeners x - 1)"
  by (induction evs x rule: await_child.induct)
     (auto simp: on_stdout_def on_stderr_def sigintHandler_def on_close_def on_error_def)

lemma run_child_listeners:
  "run_child evs n = Returns x
   \<Longrightarrow> sigintListeners x = (if settled_by_error evs then n + 1 else n)"
  by (auto simp: run_child_def split: outcome.splits prod.splits settlement.splits
        dest!: await_child_listeners)

lemma handleExecuteCommand_listeners:
  "handleExecuteCommand fa pa evs ans n objs c = Returns (t, objs', n')
   \<Longrightarrow> n' = (if settled_by_error evs then n + 1 else n)"
  by (auto simp: handleExecuteCommand_def split: outcome.splits prod.splits
        dest!: run_child_listeners)

lemma await_child_not_Aborts: "await_child evs x \<noteq> Aborts"
  by (induction evs x rule: await_child.induct) simp_all

lemma run_child_not_Aborts: "run_child evs n \<noteq> Aborts"
  using await_child_not_Aborts [of evs]
  by (auto simp: run_child_def split: outcome.splits prod.splits settlement.splits)

text \<open>After an interrupt the callback of \<open>close\<close> resolves the promise whatever the exit
  code is, and the interrupt has sent one signal to the child.\<close>

lemma interrupt_then_close:
  "await_child (Sigint # Close code # es) x
     = Returns (x\<lparr>terminatedByUser := True, childSignals := childSignals x + 1,
                  sigintListeners := sigintListeners x - 1\<rparr>, Resolved)"
  by (simp add: sigintHandler_def on_close_def)

lemma handleExecuteCommand_returns:
  "build_command fa pa objs c = Returns command \<Longrightarrow> run_child evs n = Returns x
   \<Longrightarrow> \<exists>t objs'. handleExecuteCommand fa pa evs ans n objs c
                   = Returns (t, objs', sigintListeners x)"
  by (cases "refine_after_run (truncate_output (executionOutput x)) ans objs c")
     (simp add: handleExecuteCommand_def)

lemma handleExecuteCommand_stores:
  "handleExecuteCommand fa pa evs ans n objs c = Returns (t, objs', n') \<Longrightarrow> answers_text ans
   \<Longrightarrow> \<exists>x c'. run_child evs n = Returns x \<and> ctxt t = Some c'
          \<and> nextState t = USER_REQUEST
          \<and> executionResults (objs' ! currentCommand c')
              = Str (truncate_output (executionOutput x))"
  by (auto simp: handleExecuteCommand_def refine_after_run_def answers_text_def
        split: outcome.splits prompt_result.splits if_splits)

lemma handleExecuteCommand_cancel:
  "handleExecuteCommand fa pa evs Rejected n objs c = Returns (t, objs', n')
   \<Longrightarrow> t = \<lparr>nextState = EXECUTE_COMMAND, ctxt = Some c\<rparr> \<and> objs' = objs"
  by (auto simp: handleExecuteCommand_def refine_after_run_def split: outcome.splits)

lemma display_last_output_record:
  "out \<noteq> [] \<Longrightarrow> display_last_output (ex\<lparr>executionResults := Outcome out err\<rparr>)
     = [LogHeader (CHR 0x0A # ''Last Output:''), LogNl, if err then LogError out else LogText out]"
  by (simp add: display_last_output_def)

lemma display_last_output_string:
  "display_last_output (ex\<lparr>executionResults := Str out\<rparr>) = []"
  by (simp add: display_last_output_def)

lemma handleUserRequest_Rejected:
  "handleUserRequest g b Rejected objs c = handleUserRequest g b (Answer False) objs c"
  by (cases g) (simp_all add: handleUserRequest_def)

lemma handleUserRequest_declined_next:
  "handleUserRequest g b Rejected objs c = Returns (t, objs')
   \<Longrightarrow> nextState t = EXIT \<or> nextState t = REQUEST_CLARIFICATION \<or> nextState t = USER_RESPONSE"
  by (auto simp: handleUserRequest_def Let_def split: gen_outcome.splits if_splits)

lemma await_child_unsettled:
  "unsettled pre \<Longrightarrow>
   \<exists>x'. await_child (pre @ rest) x = await_child rest x'
        \<and> terminatedByUser x' = (terminatedByUser x \<or> interrupts pre > 0)
        \<and> childSignals x' = childSignals x + interrupts pre
        \<and> sigintListeners x' = sigintListeners x
        \<and> executionOutput x' = executionOutput x @ data_of pre
        \<and> hasError x' = (hasError x \<or> stderr_seen pre)"
proof (induction pre arbitrary: x)
  case Nil
  show ?case by (rule exI [of _ x]) simp
next
  case (Cons ev pre)
  show ?case
  proof (cases ev)
    case (Stdout t)
    with Cons.prems have u: "unsettled pre" by simp
    from Cons.IH [OF u, of "on_stdout t x"] Stdout show ?thesis
      by (auto simp: on_stdout_def)
  next
    case (Stderr t)
    with Cons.prems have u: "unsettled pre" by simp
    from Cons.IH [OF u, of "on_stderr t x"] Stderr show ?thesis
      by (auto simp: on_stderr_def)
  next
    case Sigint
    with Cons.prems have u: "unsettled pre" by simp
    from Cons.IH [OF u, of "sigintHandler x"] Sigint show ?thesis
      by (auto simp: sigintHandler_def)
  next
    case (Close code)
    with Cons.prems show ?thesis by simp
  next
    case (ChildError msg)
    with Cons.prems show ?thesis by simp
  qed
qed

lemma interrupts_append: "interrupts (as @ bs) = interrupts as + interrupts bs"
  by (induction as rule: interrupts.induct) simp_all

lemma data_of_append: "data_of (as @ bs) = data_of as @ data_of bs"
  by (induction as rule: data_of.induct) simp_all

lemma stderr_seen_append: "stderr_seen (as @ bs) = (stderr_seen as \<or> stderr_seen bs)"
  by (induction as rule: stderr_seen.induct) simp_all

lemma unsettled_append: "unsettled (as @ bs) = (unsettled as \<and> unsettled bs)"
  by (induction as rule: unsettled.induct) simp_all

lemma run_child_interrupted:
  assumes "unsettled pre" and "unsettled mid"
  shows "\<exists>x. run_child (pre @ Sigint # mid @ Close code # post) n = Returns x
           \<and> terminatedByUser x
           \<and> childSignals x = interrupts pre + 1 + interrupts mid
           \<and> sigintListeners x = n
           \<and> executionOutput x = data_of (pre @ mid)
           \<and> hasError x = stderr_seen (pre @ mid)"
proof -
  let ?x0 = "\<lparr>executionOutput = [], hasError = False, terminatedByUser = False,
              sigintListeners = n + 1, childSignals = 0\<rparr>"
  from assms have u: "unsettled (pre @ Sigint # mid)" by (simp add: unsettled_append)
  from await_child_unsettled [OF u, of "Close code # post" ?x0]
  obtain x' where a: "await_child ((pre @ Sigint # mid) @ Close code # post) ?x0
                        = await_child (Close code # post) x'"
    and b: "terminatedByUser x'" "childSignals x' = interrupts (pre @ Sigint # mid)"
      "sigintListeners x' = n + 1" "executionOutput x' = data_of (pre @ Sigint # mid)"
      "hasError x' = stderr_seen (pre @ Sigint # mid)"
    by (auto simp: interrupts_append)
  from a b have "run_child (pre @ Sigint # mid @ Close code # post) n
                   = Returns (x'\<lparr>sigintListeners := n\<rparr>)"
    by (simp add: run_child_def on_close_def)
  with b show ?thesis
    by (simp add: interrupts_append data_of_append stderr_seen_append)
qed

lemma refine_after_run_exit:
  "refine_after_run out ans objs c = (t, objs')
   \<Longrightarrow> (nextState t = EXIT) = (\<exists>a. ans = Answer a \<and> trim a = [])"
  by (auto simp: refine_after_run_def split: prompt_result.splits if_splits)

section \<open>Claims\<close>








text \<open>
  C3. An interrupt while the child runs is the event \<open>Sigint\<close>: the signal reaches the parent,
  where \<open>sigintHandler\<close> is registered. The handler marks the run as terminated by the user
  and signals the child, once per interrupt; nothing in it ends the parent. When the child
  then closes, with any exit code or none, the promise resolves, the listener is removed,
  the exit code flags no error, and the handler goes on to the refinement prompt: the
  transition it returns is the one the prompt decides, \<open>EXIT\<close> only on an empty answer.
\<close>

theorem C3_interrupt_isolation:
  "unsettled pre \<and> unsettled mid \<and> build_command fa pa objs c = Returns command \<longrightarrow>
     (\<exists>x t objs'.
        run_child (pre @ Sigint # mid @ Close code # post) n = Returns x
        \<and> terminatedByUser x
        \<and> childSignals x = interrupts pre + 1 + interrupts mid
        \<and> sigintListeners x = n
        \<and> executionOutput x = data_of (pre @ mid)
        \<and> hasError x = stderr_seen (pre @ mid)
        \<and> handleExecuteCommand fa pa (pre @ Sigint # mid @ Close code # post) ans n objs c
            = Returns (t, objs', n)
        \<and> refine_after_run (truncate_output (executionOutput x)) ans objs c = (t, objs')
        \<and> (nextState t = EXIT) = (\<exists>a. ans = Answer a \<and> trim a = []))"
proof
  assume a: "unsettled pre \<and> unsettled mid \<and> build_command fa pa objs c = Returns command"
  then obtain x where r: "run_child (pre @ Sigint # mid @ Close code # post) n = Returns x"
    and p: "terminatedByUser x" "childSignals x = interrupts pre + 1 + interrupts mid"
      "sigintListeners x = n" "executionOutput x = data_of (pre @ mid)"
      "hasError x = stderr_seen (pre @ mid)"
    using run_child_interrupted [of pre mid code post n] by blast
  obtain t objs' where f: "refine_after_run (truncate_output (executionOutput x)) ans objs c
                             = (t, objs')"
    by (cases "refine_after_run (truncate_output (executionOutput x)) ans objs c")
  with a r p have h: "handleExecuteCommand fa pa (pre @ Sigint # mid @ Close code # post) ans n
                        objs c = Returns (t, objs', n)"
    by (simp add: handleExecuteCommand_def)
  from refine_after_run_exit [OF f] r p f h show "\<exists>x t objs'.
        run_child (pre @ Sigint # mid @ Close code # post) n = Returns x
        \<and> terminatedByUser x
        \<and> childSignals x = interrupts pre + 1 + interrupts mid
        \<and> sigintListeners x = n
        \<and> executionOutput x = data_of (pre @ mid)
        \<and> hasError x = stderr_seen (pre @ mid)
        \<and> handleExecuteCommand fa pa (pre @ Sigint # mid @ Close code # post) ans n objs c
            = Returns (t, objs', n)
        \<and> refine_after_run (truncate_output (executionOutput x)) ans objs c = (t, objs')
        \<and> (nextState t = EXIT) = (\<exists>a. ans = Answer a \<and> trim a = [])"
    by blast
qed

theorem C3_interrupt_isolation_witness:
  "unsettled [Stdout ''working''] \<and> unsettled []
   \<and> build_command Rejected Rejected demo_asked demo_context = Returns ''zip -r files.zip .''
   \<and> (\<exists>t objs'.
         handleExecuteCommand Rejected Rejected [Stdout ''working'', Sigint, Close None]
           (Answer ''try again'') 0 demo_asked demo_context = Returns (t, objs', 0)
         \<and> nextState t \<noteq> EXIT)"
proof -
  have a: "unsettled [Stdout ''working'']" "unsettled []" by simp_all
  have b: "build_command Rejected Rejected demo_asked demo_context = Returns ''zip -r files.zip .''"
    by code_simp
  from C3_interrupt_isolation [of "[Stdout ''working'']" "[]" Rejected Rejected demo_asked
         demo_context "''zip -r files.zip .''" None "[]" 0 "Answer ''try again''"] a b
  obtain t objs' where
    "handleExecuteCommand Rejected Rejected ([Stdout ''working''] @ Sigint # [] @ Close None # [])
       (Answer ''try again'') 0 demo_asked demo_context = Returns (t, objs', 0)"
    and "(nextState t = EXIT) = (\<exists>a. Answer ''try again'' = Answer a \<and> trim a = [])"
    by blast
  moreover have "trim ''try again'' \<noteq> []" by (simp add: trim_def is_js_whitespace_def)
  ultimately have "\<exists>t objs'.
         handleExecuteCommand Rejected Rejected [Stdout ''working'', Sigint, Close None]
           (Answer ''try again'') 0 demo_asked demo_context = Returns (t, objs', 0)
         \<and> nextState t \<noteq> EXIT"
    by auto
  with a b show ?thesis by blast
qed

text \<open>
  C4. For captured execution output of length \<open>L\<close>: if \<open>L > 1000\<close> the stored output is the
  first 1000 characters followed by a marker that states exactly \<open>L - 1000\<close> omitted
  characters, so its length is 1000 plus the marker's length; if \<open>L \<le> 1000\<close> the stored
  output is the captured output, unchanged.
\<close>

theorem C4_output_truncation:
  "(length out > 1000 \<longrightarrow>
      truncate_output out = take 1000 out @ truncation_marker (length out - 1000)
      \<and> length (truncate_output out) = 1000 + length (truncation_marker (length out - 1000))
      \<and> stated_omitted (drop 1000 (truncate_output out)) = length out - 1000)
   \<and> (length out \<le> 1000 \<longrightarrow> truncate_output out = out)
   \<and> (handleExecuteCommand fa pa evs ans n objs c = Returns (t, objs', n') \<and> answers_text ans
        \<longrightarrow> (\<exists>x c'. run_child evs n = Returns x \<and> ctxt t = Some c'
               \<and> executionResults (objs' ! currentCommand c')
                   = Str (truncate_output (executionOutput x))))"
proof -
  have "handleExecuteCommand fa pa evs ans n objs c = Returns (t, objs', n') \<and> answers_text ans
        \<longrightarrow> (\<exists>x c'. run_child evs n = Returns x \<and> ctxt t = Some c'
               \<and> executionResults (objs' ! currentCommand c')
                   = Str (truncate_output (executionOutput x)))"
    using handleExecuteCommand_stores by blast
  then show ?thesis
    by (simp add: truncate_output_def MAX_OUTPUT_LENGTH_def stated_omitted_marker)
qed

theorem C4_output_truncation_witness:
  "length (replicate 1003 CHR ''x'') > 1000
   \<and> truncate_output (replicate 1003 CHR ''x'')
       = replicate 1000 CHR ''x'' @ CHR 0x0A # ''[Output truncated - 3 more characters]''
   \<and> stated_omitted (drop 1000 (truncate_output (replicate 1003 CHR ''x''))) = 3
   \<and> length ''short'' \<le> 1000 \<and> truncate_output ''short'' = ''short''
   \<and> answers_text (Answer ''fix it'')
   \<and> (\<exists>t objs' n' c'.
         handleExecuteCommand Rejected Rejected [Stdout (replicate 1003 CHR ''x''), Close (Some 0)]
           (Answer ''fix it'') 0 demo_asked demo_context = Returns (t, objs', n')
         \<and> ctxt t = Some c'
         \<and> executionResults (objs' ! currentCommand c')
             = Str (replicate 1000 CHR ''x''
                    @ CHR 0x0A # ''[Output truncated - 3 more characters]''))"
proof -
  note th = C4_output_truncation [of "replicate 1003 CHR ''x''" Rejected Rejected
      "[Stdout (replicate 1003 CHR ''x''), Close (Some 0)]" "Answer ''fix it''" 0 demo_asked
      demo_context]
  note long = th [THEN conjunct1]
  have a: "truncate_output (replicate 1003 CHR ''x'')
       = replicate 1000 CHR ''x'' @ CHR 0x0A # ''[Output truncated - 3 more characters]''"
    using long by (simp add: truncation_marker_def decimal_small digit_char_def)
  have gt: "length (replicate 1003 CHR ''x'') > 1000" by simp
  from long gt have "stated_omitted (drop 1000 (truncate_output (replicate 1003 CHR ''x'')))
                       = length (replicate 1003 CHR ''x'') - 1000"
    by blast
  then have b: "stated_omitted (drop 1000 (truncate_output (replicate 1003 CHR ''x''))) = 3"
    by simp
  have d: "truncate_output ''short'' = ''short''"
    using C4_output_truncation [of "''short''", THEN conjunct2, THEN conjunct1] by simp
  have e: "answers_text (Answer ''fix it'')"
    by (simp add: answers_text_def trim_def is_js_whitespace_def)
  have r: "run_child [Stdout (replicate 1003 CHR ''x''), Close (Some 0)] 0
             = Returns \<lparr>executionOutput = replicate 1003 CHR ''x'', hasError = False,
                        terminatedByUser = False, sigintListeners = 0, childSignals = 0\<rparr>"
    by (simp add: run_child_def on_stdout_def on_close_def)
  have "build_command Rejected Rejected demo_asked demo_context = Returns ''zip -r files.zip .''"
    by code_simp
  from handleExecuteCommand_returns [OF this r]
  obtain t objs' n' where h: "handleExecuteCommand Rejected Rejected
      [Stdout (replicate 1003 CHR ''x''), Close (Some 0)] (Answer ''fix it'') 0 demo_asked
      demo_context = Returns (t, objs', n')"
    by blast
  from th [of t objs' n'] h e obtain x c' where
    "run_child [Stdout (replicate 1003 CHR ''x''), Close (Some 0)] 0 = Returns x"
    and "ctxt t = Some c'"
    and "executionResults (objs' ! currentCommand c') = Str (truncate_output (executionOutput x))"
    by blast
  with r a h have f: "\<exists>t objs' n' c'.
         handleExecuteCommand Rejected Rejected [Stdout (replicate 1003 CHR ''x''), Close (Some 0)]
           (Answer ''fix it'') 0 demo_asked demo_context = Returns (t, objs', n')
         \<and> ctxt t = Some c'
         \<and> executionResults (objs' ! currentCommand c')
             = Str (replicate 1000 CHR ''x''
                    @ CHR 0x0A # ''[Output truncated - 3 more characters]'')"
    by auto
  from a b d e f show ?thesis by simp
qed

text \<open>
  C5 (the code departs from the claim). The claim: the execution outcome attached to the
  follow-up refinement exchange is a record \<open>{ output, error }\<close>, and USER_RESPONSE renders
  its output. The code attaches the output string itself; read through \<open>?.output\<close> it
  yields nothing, and nothing is rendered. The run, from the entry with the request
  \<open>list files\<close>: the command \<open>ls -la\<close> is generated and run, it prints \<open>hi\<close>, the user asks for
  \<open>more\<close>, the result is generated again and reviewed. Had the exchange held the record,
  the output would be rendered.
\<close>

theorem C5_execution_results_not_rendered:
  "entry demo_options (Some demo_configuration) = Returns demo_start
   \<and> runStateMachine (take 2 demo_run) demo_start
     = Returns \<lparr>currentState = EXECUTE_COMMAND, mcontext = demo_generated_context,
                objects = demo_generated, listeners = 0\<rparr>
   \<and> handleExecuteCommand Rejected Rejected [Stdout ''hi'', Close (Some 0)] (Answer ''more'') 0
       demo_generated demo_generated_context
     = Returns (\<lparr>nextState = USER_REQUEST, ctxt = Some demo_after_run_context\<rparr>,
                demo_after_run, 0)
   \<and> handleUserRequest (Generated demo_result) (0, 0, 0, 0) Rejected
         demo_after_run demo_after_run_context
     = Returns (\<lparr>nextState = USER_RESPONSE, ctxt = Some demo_reviewed_context\<rparr>, demo_reviewed)
   \<and> executionResults (demo_reviewed ! currentCommand demo_reviewed_context) = Str ''hi''
   \<and> display_last_output (demo_reviewed ! currentCommand demo_reviewed_context) = []
   \<and> display_last_output
         ((demo_reviewed ! currentCommand demo_reviewed_context)
            \<lparr>executionResults := Outcome ''hi'' False\<rparr>)
       = [LogHeader (CHR 0x0A # ''Last Output:''), LogNl, LogText ''hi'']"
  by code_simp

text \<open>
  C6 (the code departs from the claim). The claim: the exchange REFINE creates carries the
  prior execution results, and the request builder embeds them in the refinement wrapper of
  that exchange's user turn. The code stores them under \<open>previousExecutionResults\<close>, the
  builder reads \<open>executionResults\<close>, and the user turn is the wrapper without results. The
  run continues the one above: the user presses \<open>r\<close> and types \<open>again\<close> in REFINE. The turn
  of the exchange created after the run, two messages earlier, does embed the output.
\<close>

theorem C6_refine_drops_results:
  "runStateMachine (take 5 demo_run) demo_start
     = Returns \<lparr>currentState = REFINE, mcontext = demo_reviewed_context,
                objects = demo_reviewed, listeners = 0\<rparr>
   \<and> executionResults (demo_reviewed ! currentCommand demo_reviewed_context) = Str ''hi''
   \<and> handleRefine (Answer ''again'') demo_reviewed demo_reviewed_context
     = Returns (\<lparr>nextState = USER_REQUEST,
                 ctxt = Some (demo_reviewed_context
                                \<lparr>currentCommand := 4, commandHistory := [1, 3]\<rparr>)\<rparr>,
                demo_reviewed
                @ [(new_exchange ''again'' Refinement)\<lparr>previousExecutionResults := Str ''hi''\<rparr>])
   \<and> buildMessagesLLM
         (demo_reviewed
          @ [(new_exchange ''again'' Refinement)\<lparr>previousExecutionResults := Str ''hi''\<rparr>])
         (demo_reviewed_context\<lparr>currentCommand := 4, commandHistory := [1, 3]\<rparr>)
     = [SystemMessage False,
        UserMessage ''list files'',
        AssistantMessage (Some demo_result),
        UserMessage (''We ran it and got these results: hi''
                     @ ''. Please refine based on the following request: more''
                     @ changelog_note ''command or script''),
        AssistantMessage (Some demo_result),
        UserMessage (''Please refine the previous response based on the following request:''
                     @ [CHR 0x0A] @ ''  again'' @ [CHR 0x0A] @ ''  ''
                     @ changelog_note ''command or script'')]"
  by code_simp





text \<open>
  C9, as claimed: every handler turns a cancelled prompt into a transition to \<open>EXIT\<close> or
  \<open>USER_RESPONSE\<close>. It fails in USER_REQUEST: a cancelled script-conversion confirmation
  counts as declining, and the handler goes on to \<open>REQUEST_CLARIFICATION\<close> when the result
  asks a question. The input is the first round from the entry, where the model proposes a
  script and asks which files are meant.
\<close>

theorem C9_counterexample:
  "entry demo_options (Some demo_configuration) = Returns demo_start
   \<and> handleUserRequest (Generated demo_script_question) (0, 0, 0, 0) Rejected
       (objects demo_start) (mcontext demo_start)
     = Returns (\<lparr>nextState = REQUEST_CLARIFICATION,
                 ctxt = Some ((mcontext demo_start)\<lparr>currentCommand := 1\<rparr>)\<rparr>,
                objects demo_start
                @ [(new_exchange ''list files'' Prompt)\<lparr>response := Some demo_script_question\<rparr>])
   \<and> REQUEST_CLARIFICATION \<noteq> EXIT \<and> REQUEST_CLARIFICATION \<noteq> USER_RESPONSE"
  by code_simp

text \<open>
  C9, amended. A cancelled prompt in NEW, SCRIPT_SELECTION or CHANGE_MODEL returns \<open>EXIT\<close>
  with the context unchanged; in REFINE it returns \<open>USER_RESPONSE\<close> with the context
  unchanged; in REQUEST_CLARIFICATION it returns \<open>USER_RESPONSE\<close> on a copy of the exchange
  marked \<open>refusedClarification\<close>; in USER_REQUEST a cancelled confirmation is handled as a
  declined one, and the next state is \<open>EXIT\<close>, \<open>REQUEST_CLARIFICATION\<close> or \<open>USER_RESPONSE\<close>;
  in EXECUTE_COMMAND a cancelled parameter prompt is caught and the script is run without
  parameters.
\<close>

theorem C9_cancellation:
  "handleNew scripts Rejected inp objs c = Returns (\<lparr>nextState = EXIT, ctxt = Some c\<rparr>, objs)
   \<and> (a \<noteq> ''Refine an existing script'' \<longrightarrow>
        handleNew scripts (Answer a) Rejected objs c
          = Returns (\<lparr>nextState = EXIT, ctxt = Some c\<rparr>, objs))
   \<and> (scripts \<noteq> [] \<longrightarrow>
        handleScriptSelection scripts Rejected ld inp objs c
          = Returns (\<lparr>nextState = EXIT, ctxt = Some c\<rparr>, objs))
   \<and> (scripts \<noteq> [] \<and> code \<noteq> [] \<longrightarrow>
        handleScriptSelection scripts (Answer a) (Some code) Rejected objs c
          = Returns (\<lparr>nextState = EXIT, ctxt = Some c\<rparr>, objs))
   \<and> (config c \<noteq> None \<longrightarrow>
        handleChangeModel Rejected objs c
          = Returns (\<lparr>nextState = EXIT, ctxt = Some c\<rparr>, objs))
   \<and> handleRefine Rejected objs c
       = Returns (\<lparr>nextState = USER_RESPONSE, ctxt = Some c\<rparr>, objs)
   \<and> (response (objs ! currentCommand c) \<noteq> None \<longrightarrow>
        handleRequestClarification Rejected objs c
          = Returns (\<lparr>nextState = USER_RESPONSE,
                      ctxt = Some (c\<lparr>currentCommand := length objs\<rparr>)\<rparr>,
                     objs @ [(objs ! currentCommand c)\<lparr>refusedClarification := True\<rparr>]))
   \<and> handleUserRequest g b Rejected objs c = handleUserRequest g b (Answer False) objs c
   \<and> (\<exists>t objs'. handleUserRequest g b Rejected objs c = Returns (t, objs')
         \<and> (nextState t = EXIT \<or> nextState t = REQUEST_CLARIFICATION
              \<or> nextState t = USER_RESPONSE))
   \<and> (response (objs ! currentCommand c) = Some r \<and> scriptMode c \<and> config c = Some cfg
        \<and> scriptName c = Some nm \<longrightarrow>
        build_command Rejected Rejected objs c
          = Returns (''node '' @ path_join [scriptsDir cfg, nm, ''index.js'']))"
proof -
  have "response (objs ! currentCommand c) = Some r \<and> scriptMode c \<and> config c = Some cfg
        \<and> scriptName c = Some nm \<longrightarrow>
        build_command Rejected Rejected objs c
          = Returns (''node '' @ path_join [scriptsDir cfg, nm, ''index.js''])"
    by (simp add: build_command_def trim_def)
  moreover
  obtain t objs' where h: "handleUserRequest g b Rejected objs c = Returns (t, objs')"
    using handleUserRequest_total by blast
  from handleUserRequest_declined_next [OF h] h
  have "\<exists>t objs'. handleUserRequest g b Rejected objs c = Returns (t, objs')
         \<and> (nextState t = EXIT \<or> nextState t = REQUEST_CLARIFICATION
              \<or> nextState t = USER_RESPONSE)"
    by blast
  moreover have "response (objs ! currentCommand c) \<noteq> None \<longrightarrow>
        handleRequestClarification Rejected objs c
          = Returns (\<lparr>nextState = USER_RESPONSE,
                      ctxt = Some (c\<lparr>currentCommand := length objs\<rparr>)\<rparr>,
                     objs @ [(objs ! currentCommand c)\<lparr>refusedClarification := True\<rparr>])"
    by (auto simp: handleRequestClarification_def Let_def)
  moreover have "config c \<noteq> None \<longrightarrow>
        handleChangeModel Rejected objs c
          = Returns (\<lparr>nextState = EXIT, ctxt = Some c\<rparr>, objs)"
    by (auto simp: handleChangeModel_def)
  moreover have "a \<noteq> ''Refine an existing script'' \<longrightarrow>
        handleNew scripts (Answer a) Rejected objs c
          = Returns (\<lparr>nextState = EXIT, ctxt = Some c\<rparr>, objs)"
    by (simp add: handleNew_def menu_options_def Let_def)
  ultimately show ?thesis
    by (simp add: handleNew_def handleScriptSelection_def handleRefine_def
          handleUserRequest_Rejected)
qed

theorem C9_cancellation_witness:
  "[''my-script''] \<noteq> [] \<and> ''console.log(1)'' \<noteq> [] \<and> config demo_context \<noteq> None
   \<and> response (demo_asked ! currentCommand demo_context) \<noteq> None
   \<and> handleScriptSelection [''my-script''] (Answer ''my-script'') (Some ''console.log(1)'')
        Rejected demo_asked demo_context
       = Returns (\<lparr>nextState = EXIT, ctxt = Some demo_context\<rparr>, demo_asked)
   \<and> handleChangeModel Rejected demo_asked demo_context
       = Returns (\<lparr>nextState = EXIT, ctxt = Some demo_context\<rparr>, demo_asked)
   \<and> (\<exists>t objs'. handleRequestClarification Rejected demo_asked demo_context
                    = Returns (t, objs') \<and> nextState t = USER_RESPONSE)
   \<and> scriptMode (mcontext demo_script_start)
   \<and> build_command Rejected Rejected demo_asked (mcontext demo_script_start)
       = Returns ''node /scripts/my-cool-script-1a2b3c4d/index.js''"
proof -
  have a: "[''my-script''] \<noteq> []" "''console.log(1)'' \<noteq> []" by simp_all
  have b: "config demo_context \<noteq> None"
    by (simp add: demo_context_def demo_start_def)
  have d: "response (demo_asked ! currentCommand demo_context) \<noteq> None"
    by (simp add: demo_asked_def demo_context_def demo_start_def)
  note th = C9_cancellation [of "[''my-script'']" Rejected demo_asked demo_context
      "''my-script''" "Some ''console.log(1)''" "''console.log(1)''" NoObject "(0, 0, 0, 0)"]
  from th a have e1: "handleScriptSelection [''my-script''] (Answer ''my-script'')
        (Some ''console.log(1)'') Rejected demo_asked demo_context
       = Returns (\<lparr>nextState = EXIT, ctxt = Some demo_context\<rparr>, demo_asked)"
    by blast
  from th b have e2: "handleChangeModel Rejected demo_asked demo_context
       = Returns (\<lparr>nextState = EXIT, ctxt = Some demo_context\<rparr>, demo_asked)"
    by blast
  from th d have "handleRequestClarification Rejected demo_asked demo_context
          = Returns (\<lparr>nextState = USER_RESPONSE,
                      ctxt = Some (demo_context\<lparr>currentCommand := length demo_asked\<rparr>)\<rparr>,
                     demo_asked @ [(demo_asked ! currentCommand demo_context)
                                     \<lparr>refusedClarification := True\<rparr>])"
    by blast
  then have e3: "\<exists>t objs'. handleRequestClarification Rejected demo_asked demo_context
                    = Returns (t, objs') \<and> nextState t = USER_RESPONSE"
    by simp
  have f: "response (demo_asked ! currentCommand (mcontext demo_script_start))
             = Some demo_question"
    "scriptMode (mcontext demo_script_start)"
    "config (mcontext demo_script_start) = Some demo_configuration"
    "scriptName (mcontext demo_script_start) = Some ''my-cool-script-1a2b3c4d''"
    by (simp_all add: demo_script_start_def demo_script_context_def demo_context_def
          demo_start_def demo_asked_def)
  from C9_cancellation [of "[]" Rejected demo_asked "mcontext demo_script_start" "[]" None "[]"
         NoObject "(0, 0, 0, 0)" demo_question demo_configuration "''my-cool-script-1a2b3c4d''"] f
  have "build_command Rejected Rejected demo_asked (mcontext demo_script_start)
          = Returns (''node '' @ path_join [scriptsDir demo_configuration,
                                           ''my-cool-script-1a2b3c4d'', ''index.js''])"
    by blast
  then have e4: "build_command Rejected Rejected demo_asked (mcontext demo_script_start)
          = Returns ''node /scripts/my-cool-script-1a2b3c4d/index.js''"
    by (simp add: demo_configuration_def)
  from a b d e1 e2 e3 f(2) e4 show ?thesis by blast
qed

text \<open>
  C10. The \<open>c\<close> key does not hand the rendered command to the clipboard tool as it is. On
  every platform but \<open>win32\<close> the text \<open>copyToClipboard\<close> interpolates into its shell command
  is the rendered command with every newline and tab replaced by a space and a backslash
  put before every backslash, double quote, dollar sign and backtick; so for some generated
  content the two differ.
\<close>

theorem C10_copy_not_verbatim:
  "(platform \<noteq> ''win32'' \<longrightarrow>
      copied_text platform r = concat (map escape_char (rendered_command r)))
   \<and> escape_char (CHR 0x0A) = '' '' \<and> escape_char (CHR 0x09) = '' ''
   \<and> escape_char (CHR 0x5C) = [CHR 0x5C, CHR 0x5C]
   \<and> escape_char (CHR 0x22) = [CHR 0x5C, CHR 0x22]
   \<and> escape_char (CHR ''$'') = [CHR 0x5C, CHR ''$'']
   \<and> escape_char (CHR 0x60) = [CHR 0x5C, CHR 0x60]
   \<and> (\<exists>r'. copied_text ''linux'' r' \<noteq> rendered_command r')"
proof -
  have "platform \<noteq> ''win32'' \<longrightarrow>
      copied_text platform r = concat (map escape_char (rendered_command r))"
    by (simp add: copied_text_def rendered_command_def clipboard_text_def trim_idem
          escape_for_shell_eq)
  moreover have "copied_text ''linux'' demo_copied \<noteq> rendered_command demo_copied"
    by code_simp
  ultimately show ?thesis by (auto simp: escape_char_def)
qed

theorem C10_copy_not_verbatim_witness:
  "''linux'' \<noteq> ''win32''
   \<and> rendered_command demo_copied = ''echo '' @ [CHR 0x22] @ ''$HOME'' @ [CHR 0x22, CHR 0x0A] @ ''ls''
   \<and> copied_text ''linux'' demo_copied
       = ''echo '' @ [CHR 0x5C, CHR 0x22, CHR 0x5C] @ ''$HOME'' @ [CHR 0x5C, CHR 0x22] @ '' ls''"
proof -
  have a: "''linux'' \<noteq> ''win32''" by simp
  have b: "rendered_command demo_copied
             = ''echo '' @ [CHR 0x22] @ ''$HOME'' @ [CHR 0x22, CHR 0x0A] @ ''ls''"
    by code_simp
  from C10_copy_not_verbatim [of "''linux''" demo_copied] a
  have "copied_text ''linux'' demo_copied = concat (map escape_char (rendered_command demo_copied))"
    by blast
  also have "\<dots> = ''echo '' @ [CHR 0x5C, CHR 0x22, CHR 0x5C] @ ''$HOME'' @ [CHR 0x5C, CHR 0x22] @ '' ls''"
    unfolding b by (simp add: escape_char_def)
  finally show ?thesis using a b by blast
qed

end
